theory Spec2Isabelle
  imports Complex_Main
begin

section \<open>The authorization decision model (object Auth)\<close>

text \<open>
  A shallow embedding of the Scala object \<open>au.csiro.data61.magda.model.Auth\<close>: the
  concise residual rules returned by the policy engine and their translation into
  aspect queries. Every \<open>throw new Error(...)\<close> of the source is a value of the type
  \<open>error\<close>, one constructor per throw site, and a function that can throw returns
  \<open>error + 'a\<close> with \<open>Inl\<close> for the exception.
\<close>

subsection \<open>JSON values\<close>

text \<open>
  spray-json's \<open>JsValue\<close>. A \<open>JsNumber\<close> holds a Scala \<open>BigDecimal\<close>, whose equality is
  numeric (\<open>BigDecimal("0.00") == 0\<close> holds), so the number is modelled by its value.
  Strings are sequences of characters; the source only tests prefixes and suffixes,
  takes lengths and splits, which read the same on any character sequence.
\<close>

type_synonym BigDecimal = rat

datatype JsValue =
    JsObject "(string \<times> JsValue) list"
  | JsArray "JsValue list"
  | JsString string
  | JsNumber BigDecimal
  | JsTrue
  | JsFalse
  | JsNull

fun isTrueEquivalent :: "JsValue \<Rightarrow> bool" where
  "isTrueEquivalent JsFalse = False"
| "isTrueEquivalent JsNull = False"
| "isTrueEquivalent (JsString str) = (str \<noteq> [])"
| "isTrueEquivalent (JsNumber v) = (v \<noteq> 0)"
| "isTrueEquivalent (JsArray v) = (length v \<noteq> 0)"
| "isTrueEquivalent _ = True"

subsection \<open>Errors\<close>

datatype error =
    NonRefToRefString
      \<comment> \<open>"Cannot convert non-ref term to ref string"\<close>
  | RefNonString JsValue
      \<comment> \<open>"Ref term has non-string type value"\<close>
  | RefToAspectQueryValue
      \<comment> \<open>"Attempt to covert reference `Operand` to `AspectQueryValue`"\<close>
  | UnsupportedJsValue JsValue
      \<comment> \<open>"Failed to convert unsupported JsValue to AspectQueryValue"\<close>
  | UnsupportedOperator string
      \<comment> \<open>"unsupported operator"\<close>
  | BothTermsAreReferences
      \<comment> \<open>"expression with both terms are references is currently not supported"\<close>
  | BothTermsAreValues
      \<comment> \<open>"Terms shouldn't be both value"\<close>
  | OnlyEqForCollection
      \<comment> \<open>"Only `=` operator is supported for collection reference"\<close>
  | MoreThanTwoOperands
      \<comment> \<open>"more than 2 operands found"\<close>
  | NoSuchElement
      \<comment> \<open>\<open>operator.get\<close> on \<open>None\<close>\<close>

subsection \<open>SQL fragments and aspect queries\<close>

text \<open>
  scalikejdbc's \<open>SQLSyntax\<close> is a piece of SQL text with its bound parameters
  (\<open>Seq[Any]\<close>). \<open>createUnsafely\<close> with one argument binds no parameter and
  \<open>roundBracket\<close> wraps the text in parentheses.
\<close>

typedecl Any

datatype SQLSyntax = SQLSyntax (sqlValue: string) (sqlParameters: "Any list")

definition createUnsafely :: "string \<Rightarrow> SQLSyntax" where
  "createUnsafely s = SQLSyntax s []"

definition roundBracket :: "SQLSyntax \<Rightarrow> SQLSyntax" where
  "roundBracket inner = SQLSyntax (''('' @ sqlValue inner @ '')'') (sqlParameters inner)"

text \<open>
  The aspect query classes are declared outside this file; their constructors are
  taken as the file applies them (argument order of the call sites).
\<close>

datatype AspectQueryValue =
    AspectQueryStringValue string
  | AspectQueryBooleanValue bool
  | AspectQueryBigDecimalValue BigDecimal

datatype AspectQuery =
    AspectQueryExists string "string list" bool
  | AspectQueryArrayNotEmpty string "string list" bool
  | AspectQueryValueInArray string "string list" AspectQueryValue bool
  | AspectQueryWithValue string "string list" AspectQueryValue SQLSyntax bool bool
      \<comment> \<open>aspectId, path, value, sqlOperator, negated, placeReferenceFirst\<close>
  | AspectQueryTrue
  | AspectQueryFalse

record AspectQueryGroup =
  queries :: "AspectQuery list"
  joinWithAnd :: bool
  negated :: bool

text \<open>
  What \<open>toAspectQueryGroups\<close> and \<open>toSql\<close> use and this file does not define is a
  parameter of the model: the default values of \<open>joinWithAnd\<close> and \<open>negated\<close> in the
  declaration of \<open>AspectQueryGroup\<close>, the SQL rendering of a group (which returns an
  optional fragment, since its results are passed to \<open>toOrConditionOpt\<close>), and
  scalikejdbc's \<open>joinWithOr\<close>.
\<close>

record Externals =
  defaultJoinWithAnd :: bool
  defaultNegated :: bool
  groupToSql :: "AspectQueryGroup \<Rightarrow> string \<Rightarrow> string \<Rightarrow> error + SQLSyntax option"
  joinWithOr :: "SQLSyntax list \<Rightarrow> SQLSyntax"

subsection \<open>Operands\<close>

record ConciseOperand =
  isRef :: bool
  "value" :: JsValue

definition refString :: "ConciseOperand \<Rightarrow> error + string" where
  "refString t =
     (if \<not> isRef t then Inl NonRefToRefString
      else (case ConciseOperand.value t of
              JsString s \<Rightarrow> Inr s
            | v \<Rightarrow> Inl (RefNonString v)))"

definition startsWith :: "string \<Rightarrow> string \<Rightarrow> bool" where
  "startsWith s p = (take (length p) s = p)"

definition endsWith :: "string \<Rightarrow> string \<Rightarrow> bool" where
  "endsWith s x = (length x \<le> length s \<and> drop (length s - length x) s = x)"

text \<open>
  \<open>prefixes\<close> is a Scala \<open>Set[String]\<close>, given here by a sequence that lists its
  elements. The source adds them to an empty \<open>SortedSet\<close> ordered by descending
  length and folds over that set. A sorted set holds at most one element of each
  equivalence class of its ordering, here one prefix of each length. Which of several
  prefixes of one length stays is not fixed by the source: it follows from the order
  in which the set hands out its elements and from whether the library's tree keeps
  or replaces an element that compares equal to the one added. The model keeps the
  one listed first, so the sequence stands for that choice as well; \<open>insertSorted\<close>
  is the insertion on the sorted set's elements listed in its order.
\<close>

fun insertSorted :: "string \<Rightarrow> string list \<Rightarrow> string list" where
  "insertSorted p [] = [p]"
| "insertSorted p (q # qs) =
     (if length p = length q then q # qs
      else if length q < length p then p # q # qs
      else q # insertSorted p qs)"

definition sortedPrefixes :: "string list \<Rightarrow> string list" where
  "sortedPrefixes prefixes = foldl (\<lambda>t p. insertSorted p t) [] prefixes"

definition stripPrefix :: "string \<Rightarrow> string \<Rightarrow> string" where
  "stripPrefix ref prefix =
     (if startsWith ref prefix then drop (length prefix) ref else ref)"

definition refStringWithoutPrefixes :: "string list \<Rightarrow> ConciseOperand \<Rightarrow> error + string" where
  "refStringWithoutPrefixes prefixes t =
     (case refString t of
        Inl e \<Rightarrow> Inl e
      | Inr s \<Rightarrow> Inr (foldl stripPrefix s (sortedPrefixes prefixes)))"

definition isCollectionRef :: "ConciseOperand \<Rightarrow> error + bool" where
  "isCollectionRef t =
     (case refString t of Inl e \<Rightarrow> Inl e | Inr s \<Rightarrow> Inr (endsWith s ''[_]''))"

text \<open>\<open>replaceFirst("""^\.""", "")\<close>: one leading dot, if there is one, is removed.\<close>

fun removeLeadingDot :: "string \<Rightarrow> string" where
  "removeLeadingDot [] = []"
| "removeLeadingDot (c # cs) = (if c = CHR ''.'' then cs else c # cs)"

text \<open>
  \<open>split("\\.")\<close>: the pieces between the dots; Java then drops the empty pieces at
  the end, and gives the string itself when it holds no dot.
\<close>

fun pieces :: "string \<Rightarrow> string list" where
  "pieces [] = [[]]"
| "pieces (c # cs) =
     (if c = CHR ''.'' then [] # pieces cs
      else (case pieces cs of [] \<Rightarrow> [[c]] | p # ps \<Rightarrow> (c # p) # ps))"

definition splitOnDot :: "string \<Rightarrow> string list" where
  "splitOnDot s =
     (if CHR ''.'' \<notin> set s then [s]
      else rev (dropWhile (\<lambda>p. p = []) (rev (pieces s))))"

definition slice :: "nat \<Rightarrow> nat \<Rightarrow> 'a list \<Rightarrow> 'a list" where
  "slice from until xs = take (until - from) (drop from xs)"

definition extractAspectIdAndPath ::
  "string list \<Rightarrow> ConciseOperand \<Rightarrow> error + (string \<times> string list \<times> bool)" where
  "extractAspectIdAndPath prefixes t =
     (case refStringWithoutPrefixes prefixes t of
        Inl e \<Rightarrow> Inl e
      | Inr s \<Rightarrow>
          (let ref = removeLeadingDot s;
               parts = filter (\<lambda>p. p \<noteq> []) (splitOnDot ref)
           in if length parts < 2 then Inr (ref, [], False)
              else
                (let isCollection = endsWith (parts ! (length parts - 1)) ''[_]''
                 in Inr (hd parts,
                         slice 1 (if isCollection then length parts - 1 else length parts) parts,
                         isCollection))))"

definition toAspectQueryValue :: "ConciseOperand \<Rightarrow> error + AspectQueryValue" where
  "toAspectQueryValue t =
     (if isRef t then Inl RefToAspectQueryValue
      else (case ConciseOperand.value t of
              JsString string \<Rightarrow> Inr (AspectQueryStringValue string)
            | JsTrue \<Rightarrow> Inr (AspectQueryBooleanValue True)
            | JsFalse \<Rightarrow> Inr (AspectQueryBooleanValue False)
            | JsNumber bigDec \<Rightarrow> Inr (AspectQueryBigDecimalValue bigDec)
            | v \<Rightarrow> Inl (UnsupportedJsValue v)))"

subsection \<open>Expressions\<close>

record ConciseExpression =
  negated :: bool
  operator :: "string option"
  operands :: "ConciseOperand list"

definition toSqlOperator :: "string \<Rightarrow> error + SQLSyntax" where
  "toSqlOperator regoOperator =
     (if regoOperator = ''='' then Inr (createUnsafely ''='')
      else if regoOperator = ''>'' then Inr (createUnsafely ''>'')
      else if regoOperator = ''<'' then Inr (createUnsafely ''<'')
      else if regoOperator = ''>='' then Inr (createUnsafely ''>='')
      else if regoOperator = ''<='' then Inr (createUnsafely ''<='')
      else Inl (UnsupportedOperator regoOperator))"

definition operatorGet :: "ConciseExpression \<Rightarrow> error + string" where
  "operatorGet e = (case operator e of None \<Rightarrow> Inl NoSuchElement | Some op \<Rightarrow> Inr op)"

text \<open>
  The two-operand branch once both operands are found and the reference is resolved.
  \<open>isCollection && operator.get != "="\<close> reads the operator only for a collection
  reference; the arguments of \<open>AspectQueryWithValue\<close> are evaluated from left to right.
\<close>

definition withRefAndValue ::
  "ConciseExpression \<Rightarrow> ConciseOperand \<Rightarrow> string \<Rightarrow> string list \<Rightarrow> bool \<Rightarrow> error + AspectQuery" where
  "withRefAndValue e valOperand aspectId path isCollection =
     (if isCollection then
        (case operatorGet e of
           Inl err \<Rightarrow> Inl err
         | Inr op \<Rightarrow>
             if op \<noteq> ''='' then Inl OnlyEqForCollection
             else (case toAspectQueryValue valOperand of
                     Inl err \<Rightarrow> Inl err
                   | Inr v \<Rightarrow>
                       Inr (AspectQueryValueInArray aspectId path v
                              (ConciseExpression.negated e))))
      else
        (case toAspectQueryValue valOperand of
           Inl err \<Rightarrow> Inl err
         | Inr v \<Rightarrow>
             (case operatorGet e of
                Inl err \<Rightarrow> Inl err
              | Inr op \<Rightarrow>
                  (case toSqlOperator op of
                     Inl err \<Rightarrow> Inl err
                   | Inr sqlOp \<Rightarrow>
                       Inr (AspectQueryWithValue aspectId path v sqlOp
                              (ConciseExpression.negated e)
                              (isRef (operands e ! 0)))))))"

definition toAspectQuery :: "string list \<Rightarrow> ConciseExpression \<Rightarrow> error + AspectQuery" where
  "toAspectQuery prefixes e =
     (if length (operands e) = 1 then
        (case extractAspectIdAndPath prefixes (operands e ! 0) of
           Inl err \<Rightarrow> Inl err
         | Inr (aspectId, path, isCollection) \<Rightarrow>
             if isCollection
             then Inr (AspectQueryArrayNotEmpty aspectId path (ConciseExpression.negated e))
             else Inr (AspectQueryExists aspectId path (ConciseExpression.negated e)))
      else if length (operands e) = 2 then
        (case find (\<lambda>t. \<not> isRef t) (operands e) of
           None \<Rightarrow> Inl BothTermsAreReferences
         | Some valOperand \<Rightarrow>
             (case find isRef (operands e) of
                None \<Rightarrow> Inl BothTermsAreValues
              | Some refOperand \<Rightarrow>
                  (case extractAspectIdAndPath prefixes refOperand of
                     Inl err \<Rightarrow> Inl err
                   | Inr (aspectId, path, isCollection) \<Rightarrow>
                       withRefAndValue e valOperand aspectId path isCollection)))
      else Inl MoreThanTwoOperands)"

subsection \<open>Rules and decisions\<close>

text \<open>\<open>map\<close> with a function that can throw: the first exception ends the traversal.\<close>

fun mapE :: "('a \<Rightarrow> error + 'b) \<Rightarrow> 'a list \<Rightarrow> error + 'b list" where
  "mapE f [] = Inr []"
| "mapE f (x # xs) =
     (case f x of
        Inl e \<Rightarrow> Inl e
      | Inr y \<Rightarrow> (case mapE f xs of Inl e \<Rightarrow> Inl e | Inr ys \<Rightarrow> Inr (y # ys)))"

record ConciseRule =
  default :: bool
  "value" :: JsValue
  fullName :: string
  name :: string
  expressions :: "ConciseExpression list"

definition toAspectQueryGroup :: "string list \<Rightarrow> ConciseRule \<Rightarrow> error + AspectQueryGroup" where
  "toAspectQueryGroup prefixes r =
     (case mapE (toAspectQuery prefixes) (expressions r) of
        Inl e \<Rightarrow> Inl e
      | Inr qs \<Rightarrow>
          Inr \<lparr>queries = qs, joinWithAnd = True,
               negated = \<not> isTrueEquivalent (ConciseRule.value r)\<rparr>)"

record AuthDecision =
  hasResidualRules :: bool
  result :: "JsValue option"
  residualRules :: "ConciseRule list option"
  hasWarns :: bool
  warns :: "string list option"
  unknowns :: "string list option"

fun toList :: "'a option \<Rightarrow> 'a list" where
  "toList None = []"
| "toList (Some x) = [x]"

fun getOrElse :: "'a option \<Rightarrow> 'a \<Rightarrow> 'a" where
  "getOrElse None d = d"
| "getOrElse (Some x) d = x"

definition groupOf :: "Externals \<Rightarrow> AspectQuery list \<Rightarrow> AspectQueryGroup" where
  "groupOf ext qs =
     \<lparr>queries = qs, joinWithAnd = defaultJoinWithAnd ext, negated = defaultNegated ext\<rparr>"

definition toAspectQueryGroups ::
  "Externals \<Rightarrow> string list \<Rightarrow> AuthDecision \<Rightarrow> error + AspectQueryGroup list" where
  "toAspectQueryGroups ext prefixes d =
     (if hasResidualRules d then
        mapE (toAspectQueryGroup prefixes) (concat (toList (residualRules d)))
      else if isTrueEquivalent (getOrElse (result d) JsFalse)
        then Inr [groupOf ext [AspectQueryTrue]]
        else Inr [groupOf ext [AspectQueryFalse]])"

text \<open>
  scalikejdbc's \<open>toOrConditionOpt\<close>: the conditions that are present, joined with
  \<open>or\<close>; no condition at all when none is present.
\<close>

definition toOrConditionOpt ::
  "(SQLSyntax list \<Rightarrow> SQLSyntax) \<Rightarrow> SQLSyntax option list \<Rightarrow> SQLSyntax option" where
  "toOrConditionOpt joinOr conditions =
     (let cs = concat (map toList conditions)
      in if cs = [] then None else Some (joinOr cs))"

definition toSql ::
  "Externals \<Rightarrow> string list \<Rightarrow> string \<Rightarrow> string \<Rightarrow> AuthDecision \<Rightarrow> error + SQLSyntax option" where
  "toSql ext prefixes recordIdSqlRef tenantIdSqlRef d =
     (case toAspectQueryGroups ext prefixes d of
        Inl e \<Rightarrow> Inl e
      | Inr groups \<Rightarrow>
          (case mapE (\<lambda>g. groupToSql ext g recordIdSqlRef tenantIdSqlRef) groups of
             Inl e \<Rightarrow> Inl e
           | Inr conditions \<Rightarrow>
               Inr (map_option roundBracket (toOrConditionOpt (joinWithOr ext) conditions))))"


subsection \<open>Definitions used to state the properties\<close>

text \<open>
  The truthiness table in the words of the specification: \<open>false\<close>, \<open>null\<close>, the empty
  string, zero and the empty array are false, everything else is true. It is compared
  below with \<open>isTrueEquivalent\<close>, which is the function of the source.
\<close>

definition isTruthy :: "JsValue \<Rightarrow> bool" where
  "isTruthy v =
     (v \<noteq> JsFalse \<and> v \<noteq> JsNull \<and> v \<noteq> JsString [] \<and> v \<noteq> JsNumber 0 \<and> v \<noteq> JsArray [])"

text \<open>
  One choice of the parameters, to run the model on concrete decisions: groups are
  conjunctions and not negated unless said otherwise, a group renders to no fragment
  and joining gives the empty text. No property below depends on this choice other
  than through the evaluations that name it.
\<close>

definition exampleExternals :: Externals where
  "exampleExternals =
     \<lparr>defaultJoinWithAnd = True, defaultNegated = False,
      groupToSql = (\<lambda>g recordIdSqlRef tenantIdSqlRef. Inr None),
      joinWithOr = (\<lambda>parts. createUnsafely [])\<rparr>"

definition decision :: "bool \<Rightarrow> JsValue option \<Rightarrow> ConciseRule list option \<Rightarrow> AuthDecision" where
  "decision has res rules =
     \<lparr>hasResidualRules = has, result = res, residualRules = rules,
      hasWarns = False, warns = None, unknowns = None\<rparr>"

definition reference :: "string \<Rightarrow> ConciseOperand" where
  "reference s = \<lparr>isRef = True, ConciseOperand.value = JsString s\<rparr>"

definition literal :: "JsValue \<Rightarrow> ConciseOperand" where
  "literal v = \<lparr>isRef = False, ConciseOperand.value = v\<rparr>"

definition expression :: "bool \<Rightarrow> string option \<Rightarrow> ConciseOperand list \<Rightarrow> ConciseExpression" where
  "expression n op ts = \<lparr>ConciseExpression.negated = n, operator = op, operands = ts\<rparr>"

section \<open>Sample operands and expressions\<close>

lemma expression_selectors:
  "operands (expression n op ts) = ts"
  "operator (expression n op ts) = op"
  "ConciseExpression.negated (expression n op ts) = n"
  by (simp_all add: expression_def)

lemma operand_selectors:
  "isRef (reference s)"
  "\<not> isRef (literal j)"
  "ConciseOperand.value (reference s) = JsString s"
  "ConciseOperand.value (literal j) = j"
  by (simp_all add: reference_def literal_def)

section \<open>The reference resolver\<close>

subsection \<open>Prefix stripping\<close>

text \<open>
  The sorted set lists its prefixes by strictly descending length, and it holds only
  prefixes of the given set. When no two prefixes of the set have the same length it
  holds all of them, so each is tried, longer before shorter.
\<close>

lemma set_insertSorted:
  "sorted_wrt (\<lambda>a b. length b < length a) qs \<Longrightarrow>
     set (insertSorted p qs) = (if length p \<in> length ` set qs then set qs else insert p (set qs))"
  by (induction qs) auto

lemma sorted_insertSorted:
  "sorted_wrt (\<lambda>a b. length b < length a) qs \<Longrightarrow>
     sorted_wrt (\<lambda>a b. length b < length a) (insertSorted p qs)"
  by (induction qs) (auto simp: set_insertSorted split: if_splits)

lemma sortedPrefixes_snoc:
  "sortedPrefixes (ps @ [p]) = insertSorted p (sortedPrefixes ps)"
  by (simp add: sortedPrefixes_def)

lemma sortedPrefixes_descending:
  "sorted_wrt (\<lambda>a b. length b < length a) (sortedPrefixes ps)"
proof (induction ps rule: rev_induct)
  case Nil
  show ?case by (simp add: sortedPrefixes_def)
next
  case (snoc p ps)
  then show ?case by (simp add: sortedPrefixes_snoc sorted_insertSorted)
qed

lemma sortedPrefixes_subset: "set (sortedPrefixes ps) \<subseteq> set ps"
proof (induction ps rule: rev_induct)
  case Nil
  show ?case by (simp add: sortedPrefixes_def)
next
  case (snoc p ps)
  then show ?case
    by (auto simp: sortedPrefixes_snoc set_insertSorted [OF sortedPrefixes_descending]
             split: if_splits)
qed

lemma sortedPrefixes_distinct_lengths:
  "inj_on length (set ps) \<Longrightarrow> set (sortedPrefixes ps) = set ps"
proof (induction ps rule: rev_induct)
  case Nil
  show ?case by (simp add: sortedPrefixes_def)
next
  case (snoc p ps)
  then have ih: "set (sortedPrefixes ps) = set ps"
    by (simp add: inj_on_def)
  note ins = set_insertSorted [OF sortedPrefixes_descending, of p ps]
  show ?case
  proof (cases "length p \<in> length ` set ps")
    case True
    then obtain q where "q \<in> set ps" "length q = length p" by auto
    with snoc.prems have "p \<in> set ps" by (auto simp: inj_on_def)
    with True ih show ?thesis
      by (auto simp: sortedPrefixes_snoc ins)
  next
    case False
    with ih show ?thesis
      by (simp add: sortedPrefixes_snoc ins)
  qed
qed

text \<open>
  C5 does not hold of the code. Two prefixes of the same length compare equal in the
  ordering of the sorted set, so only one of them is kept and the other is never
  tried. For the prefixes \<open>object.record\<close> and \<open>object.aspect\<close>: when the first is the
  one kept, the reference \<open>object.aspect.ds.owner\<close> keeps its prefix although that
  prefix is in the set and leads the reference; when the second is the one kept, the
  reference \<open>object.record.ds.owner\<close> does. The result for one reference and one set
  of prefixes so depends on which prefix the sorted set happens to keep.
\<close>

theorem equal_length_prefixes_collapse:
  "refStringWithoutPrefixes [''object.record'', ''object.aspect'']
     (reference ''object.aspect.ds.owner'') = Inr ''object.aspect.ds.owner''
   \<and> refStringWithoutPrefixes [''object.aspect'', ''object.record'']
     (reference ''object.record.ds.owner'') = Inr ''object.record.ds.owner''
   \<and> refStringWithoutPrefixes [''object.aspect'', ''object.record'']
     (reference ''object.aspect.ds.owner'') = Inr ''.ds.owner''
   \<and> set [''object.record'', ''object.aspect''] = set [''object.aspect'', ''object.record'']"
  by (simp add: refStringWithoutPrefixes_def refString_def reference_def sortedPrefixes_def
      stripPrefix_def startsWith_def insert_commute)

subsection \<open>Aspect id and path\<close>

lemma filter_dropWhile_not: "filter P (dropWhile (\<lambda>x. \<not> P x) xs) = filter P xs"
  by (induction xs) auto

lemma pieces_no_dot: "CHR ''.'' \<notin> set s \<Longrightarrow> pieces s = [s]"
  by (induction s) auto

text \<open>
  The segments the resolver works on are the non-empty pieces between the dots: the
  empty pieces Java's \<open>split\<close> drops at the end would be filtered out anyway.
\<close>

lemma nonempty_parts:
  "filter (\<lambda>p. p \<noteq> []) (splitOnDot s) = filter (\<lambda>p. p \<noteq> []) (pieces s)"
proof (cases "CHR ''.'' \<in> set s")
  case True
  have "filter (\<lambda>p. p \<noteq> []) (rev (dropWhile (\<lambda>p. p = []) (rev (pieces s))))
          = rev (filter (\<lambda>p. p \<noteq> []) (dropWhile (\<lambda>p. \<not> p \<noteq> []) (rev (pieces s))))"
    by (simp add: rev_filter)
  also have "\<dots> = rev (filter (\<lambda>p. p \<noteq> []) (rev (pieces s)))"
    by (simp only: filter_dropWhile_not)
  also have "\<dots> = filter (\<lambda>p. p \<noteq> []) (pieces s)"
    by (simp add: rev_filter)
  finally show ?thesis using True by (simp add: splitOnDot_def)
next
  case False
  then show ?thesis by (simp add: splitOnDot_def pieces_no_dot)
qed

text \<open>
  What the resolver returns, on the segments: with fewer than two segments the whole
  cleaned string, no path and no collection flag; otherwise the first segment as the
  aspect id and the segments after it as the path, where a last segment that ends in
  \<open>[_]\<close> sets the collection flag and is left out of the path as a whole.
\<close>

lemma extractAspectIdAndPath_segments:
  assumes "refStringWithoutPrefixes prefixes t = Inr s"
  shows "extractAspectIdAndPath prefixes t =
           (let ref = removeLeadingDot s;
                parts = filter (\<lambda>p. p \<noteq> []) (pieces ref)
            in if length parts < 2 then Inr (ref, [], False)
               else if endsWith (last parts) ''[_]''
                 then Inr (hd parts, butlast (tl parts), True)
                 else Inr (hd parts, tl parts, False))"
proof -
  have a: "slice (Suc 0) (length xs - Suc 0) xs = butlast (tl xs)"
           "slice (Suc 0) (length xs) xs = tl xs" for xs :: "string list"
    by (simp_all add: slice_def butlast_conv_take drop_Suc)
  have b: "\<not> length xs < 2 \<Longrightarrow> xs ! (length xs - Suc 0) = last xs" for xs :: "string list"
    by (cases xs) (simp_all add: last_conv_nth)
  show ?thesis
    using assms
    by (auto simp: extractAspectIdAndPath_def nonempty_parts Let_def a b)
qed

text \<open>
  C4 does not hold of the code. A last segment that carries the marker \<open>[_]\<close> is
  excluded from the path as a whole, not only its suffix: for the reference
  \<open>input.object.record.access.ids[_]\<close> the path is empty, where the claim has the path
  \<open>ids\<close>; without the marker the same reference has the path \<open>ids\<close>.
\<close>

theorem collection_marker_drops_last_segment:
  "extractAspectIdAndPath [''input.object.record'']
     (reference ''input.object.record.access.ids[_]'') = Inr (''access'', [], True)
   \<and> extractAspectIdAndPath [''input.object.record'']
     (reference ''input.object.record.access.ids'') = Inr (''access'', [''ids''], False)"
  by (simp add: extractAspectIdAndPath_def refStringWithoutPrefixes_def refString_def
        reference_def sortedPrefixes_def stripPrefix_def startsWith_def endsWith_def
        splitOnDot_def slice_def Let_def)

section \<open>The expression compiler\<close>

lemma extractAspectIdAndPath_reference:
  assumes "isRef t" and "ConciseOperand.value t = JsString s"
  shows "\<exists>aspectId path isCollection.
           extractAspectIdAndPath prefixes t = Inr (aspectId, path, isCollection)"
  using assms
  by (auto simp: extractAspectIdAndPath_def refStringWithoutPrefixes_def refString_def Let_def)

lemma toAspectQuery_one_operand:
  assumes "operands e = [t]"
  shows "toAspectQuery prefixes e =
           (case extractAspectIdAndPath prefixes t of
              Inl err \<Rightarrow> Inl err
            | Inr (aspectId, path, isCollection) \<Rightarrow>
                Inr (if isCollection
                     then AspectQueryArrayNotEmpty aspectId path (ConciseExpression.negated e)
                     else AspectQueryExists aspectId path (ConciseExpression.negated e)))"
  using assms by (simp add: toAspectQuery_def split: sum.splits)

lemma toAspectQuery_reference_and_value:
  assumes "operands e = [a, b]" and "isRef a \<noteq> isRef b"
  shows "toAspectQuery prefixes e =
           (case extractAspectIdAndPath prefixes (if isRef a then a else b) of
              Inl err \<Rightarrow> Inl err
            | Inr (aspectId, path, isCollection) \<Rightarrow>
                withRefAndValue e (if isRef a then b else a) aspectId path isCollection)"
  using assms by (cases "isRef a") (simp_all add: toAspectQuery_def)

text \<open>
  C8. An expression with one operand that is a reference (a string marked as
  reference) always compiles: to \<open>AspectQueryArrayNotEmpty\<close> when the resolver flags
  the reference as a collection, to \<open>AspectQueryExists\<close> otherwise, on the aspect
  id and path the resolver returns and with the expression's own \<open>negated\<close> flag.
\<close>

theorem single_reference_operand:
  assumes "operands e = [t]" and "isRef t" and "ConciseOperand.value t = JsString s"
  shows "\<exists>aspectId path isCollection.
           extractAspectIdAndPath prefixes t = Inr (aspectId, path, isCollection)
           \<and> toAspectQuery prefixes e =
               Inr (if isCollection
                    then AspectQueryArrayNotEmpty aspectId path (ConciseExpression.negated e)
                    else AspectQueryExists aspectId path (ConciseExpression.negated e))"
proof -
  from assms(2,3) obtain aspectId path isCollection
    where "extractAspectIdAndPath prefixes t = Inr (aspectId, path, isCollection)"
    using extractAspectIdAndPath_reference by blast
  then show ?thesis
    by (simp add: toAspectQuery_one_operand [OF assms(1)])
qed

theorem single_reference_operand_witness:
  "toAspectQuery [''input.object.record'']
     (expression True None [reference ''input.object.record.access.ownerId''])
     = Inr (AspectQueryExists ''access'' [''ownerId''] True)
   \<and> toAspectQuery [''input.object.record'']
     (expression False None [reference ''input.object.record.access.org.ids.[_]''])
     = Inr (AspectQueryArrayNotEmpty ''access'' [''org'', ''ids''] False)"
proof -
  have 1: "extractAspectIdAndPath [''input.object.record'']
             (reference ''input.object.record.access.ownerId'')
           = Inr (''access'', [''ownerId''], False)"
    by (simp add: extractAspectIdAndPath_def refStringWithoutPrefixes_def refString_def
        reference_def sortedPrefixes_def stripPrefix_def startsWith_def endsWith_def
        splitOnDot_def slice_def Let_def)
  have 2: "extractAspectIdAndPath [''input.object.record'']
             (reference ''input.object.record.access.org.ids.[_]'')
           = Inr (''access'', [''org'', ''ids''], True)"
    by (simp add: extractAspectIdAndPath_def refStringWithoutPrefixes_def refString_def
        reference_def sortedPrefixes_def stripPrefix_def startsWith_def endsWith_def
        splitOnDot_def slice_def Let_def)
  have "toAspectQuery [''input.object.record'']
          (expression True None [reference ''input.object.record.access.ownerId''])
        = Inr (AspectQueryExists ''access'' [''ownerId''] True)"
    using single_reference_operand
            [of "expression True None [reference ''input.object.record.access.ownerId'']"
                "reference ''input.object.record.access.ownerId''"
                "''input.object.record.access.ownerId''" "[''input.object.record'']"]
    unfolding 1 by (auto simp: expression_def reference_def)
  moreover
  have "toAspectQuery [''input.object.record'']
          (expression False None [reference ''input.object.record.access.org.ids.[_]''])
        = Inr (AspectQueryArrayNotEmpty ''access'' [''org'', ''ids''] False)"
    using single_reference_operand
            [of "expression False None [reference ''input.object.record.access.org.ids.[_]'']"
                "reference ''input.object.record.access.org.ids.[_]''"
                "''input.object.record.access.org.ids.[_]''" "[''input.object.record'']"]
    unfolding 2 by (auto simp: expression_def reference_def)
  ultimately show ?thesis by simp
qed

text \<open>
  C6. With two operands that are both references, or both literals, compilation
  ends in the error of the corresponding throw site (the specification's
  UnsupportedExpressionShape); with more than two operands it ends in the error
  "more than 2 operands found" (TooManyOperands). The result is an error, so no
  predicate is produced.
\<close>

theorem unsupported_expression_shapes:
  "(length (operands e) = 2 \<and> (\<forall>t \<in> set (operands e). isRef t)
      \<longrightarrow> toAspectQuery prefixes e = Inl BothTermsAreReferences)
   \<and> (length (operands e) = 2 \<and> (\<forall>t \<in> set (operands e). \<not> isRef t)
      \<longrightarrow> toAspectQuery prefixes e = Inl BothTermsAreValues)
   \<and> (2 < length (operands e)
      \<longrightarrow> toAspectQuery prefixes e = Inl MoreThanTwoOperands)"
proof (intro conjI impI)
  assume "length (operands e) = 2 \<and> (\<forall>t \<in> set (operands e). isRef t)"
  then have "length (operands e) = 2" and "find (\<lambda>t. \<not> isRef t) (operands e) = None"
    by (auto simp: find_None_iff)
  then show "toAspectQuery prefixes e = Inl BothTermsAreReferences"
    by (simp add: toAspectQuery_def)
next
  assume a: "length (operands e) = 2 \<and> (\<forall>t \<in> set (operands e). \<not> isRef t)"
  then have none: "find isRef (operands e) = None"
    by (auto simp: find_None_iff)
  from a obtain x xs where "operands e = x # xs"
    by (cases "operands e") auto
  with a have "find (\<lambda>t. \<not> isRef t) (operands e) = Some x"
    by simp
  with a none show "toAspectQuery prefixes e = Inl BothTermsAreValues"
    by (simp add: toAspectQuery_def)
next
  assume "2 < length (operands e)"
  then show "toAspectQuery prefixes e = Inl MoreThanTwoOperands"
    by (simp add: toAspectQuery_def)
qed

theorem unsupported_expression_shapes_witness:
  "toAspectQuery [''object.record'']
     (expression False (Some ''='') [reference ''object.record.a.b'', reference ''object.record.c.d''])
     = Inl BothTermsAreReferences
   \<and> toAspectQuery [''object.record'']
     (expression False (Some ''='') [literal (JsNumber 1), literal (JsString ''x'')])
     = Inl BothTermsAreValues
   \<and> toAspectQuery [''object.record'']
     (expression False (Some ''='')
        [reference ''object.record.a.b'', literal (JsNumber 1), literal (JsNumber 2)])
     = Inl MoreThanTwoOperands"
  using unsupported_expression_shapes
          [of "expression False (Some ''='')
                 [reference ''object.record.a.b'', reference ''object.record.c.d'']"
              "[''object.record'']"]
        unsupported_expression_shapes
          [of "expression False (Some ''='') [literal (JsNumber 1), literal (JsString ''x'')]"
              "[''object.record'']"]
        unsupported_expression_shapes
          [of "expression False (Some ''='')
                 [reference ''object.record.a.b'', literal (JsNumber 1), literal (JsNumber 2)]"
              "[''object.record'']"]
  by (simp add: expression_def reference_def literal_def)



text \<open>
  C7. Two operands, one a reference and one a literal, the reference resolved to a
  collection reference: with an operator other than \<open>=\<close> compilation ends in the error
  "Only `=` operator is supported for collection reference"
  (UnsupportedOperatorForCollection); with \<open>=\<close> and a literal that converts to a query
  value it yields \<open>AspectQueryValueInArray\<close> on the resolved aspect id and path, the
  converted literal and the expression's \<open>negated\<close> flag; and whenever compilation
  succeeds the operator is \<open>=\<close> and the result is that predicate.
\<close>

theorem collection_reference_membership_only:
  assumes "operands e = [a, b]" and "isRef a \<noteq> isRef b"
    and "extractAspectIdAndPath prefixes (if isRef a then a else b) = Inr (aspectId, path, True)"
  shows "(\<forall>op. operator e = Some op \<and> op \<noteq> ''=''
            \<longrightarrow> toAspectQuery prefixes e = Inl OnlyEqForCollection)
       \<and> (\<forall>v. operator e = Some ''=''
              \<and> toAspectQueryValue (if isRef a then b else a) = Inr v
            \<longrightarrow> toAspectQuery prefixes e =
                  Inr (AspectQueryValueInArray aspectId path v (ConciseExpression.negated e)))
       \<and> (\<forall>q. toAspectQuery prefixes e = Inr q
            \<longrightarrow> operator e = Some ''=''
                \<and> (\<exists>v. toAspectQueryValue (if isRef a then b else a) = Inr v
                       \<and> q = AspectQueryValueInArray aspectId path v
                               (ConciseExpression.negated e)))"
proof -
  have eq: "toAspectQuery prefixes e =
              withRefAndValue e (if isRef a then b else a) aspectId path True"
    by (simp add: toAspectQuery_reference_and_value [OF assms(1,2)] assms(3))
  show ?thesis
    unfolding eq
    by (auto simp: withRefAndValue_def operatorGet_def split: option.splits sum.splits if_splits)
qed

theorem collection_reference_membership_only_witness:
  "toAspectQuery [''input.object.record'']
     (expression True (Some ''='')
        [literal (JsString ''abc''), reference ''input.object.record.access.org.ids.[_]''])
     = Inr (AspectQueryValueInArray ''access'' [''org'', ''ids''] (AspectQueryStringValue ''abc'') True)
   \<and> toAspectQuery [''input.object.record'']
     (expression True (Some ''>='')
        [literal (JsString ''abc''), reference ''input.object.record.access.org.ids.[_]''])
     = Inl OnlyEqForCollection"
proof -
  let ?l = "literal (JsString ''abc'')"
  let ?r = "reference ''input.object.record.access.org.ids.[_]''"
  let ?P = "[''input.object.record'']"
  have d: "isRef ?l \<noteq> isRef ?r"
    by (simp add: operand_selectors)
  have "extractAspectIdAndPath ?P ?r = Inr (''access'', [''org'', ''ids''], True)"
    by (simp add: extractAspectIdAndPath_def refStringWithoutPrefixes_def refString_def
        reference_def sortedPrefixes_def stripPrefix_def startsWith_def endsWith_def
        splitOnDot_def slice_def Let_def)
  then have x: "extractAspectIdAndPath ?P (if isRef ?l then ?l else ?r)
                  = Inr (''access'', [''org'', ''ids''], True)"
    by (simp add: operand_selectors)
  have v: "toAspectQueryValue (if isRef ?l then ?r else ?l) = Inr (AspectQueryStringValue ''abc'')"
    by (simp add: literal_def toAspectQueryValue_def)
  note eq = collection_reference_membership_only
              [OF expression_selectors(1) d x, of True "Some ''=''"]
  note ge = collection_reference_membership_only
              [OF expression_selectors(1) d x, of True "Some ''>=''"]
  have "toAspectQuery ?P (expression True (Some ''='') [?l, ?r])
        = Inr (AspectQueryValueInArray ''access'' [''org'', ''ids'']
                 (AspectQueryStringValue ''abc'')
                 (ConciseExpression.negated (expression True (Some ''='') [?l, ?r])))"
    by (rule eq [THEN conjunct2, THEN conjunct1, rule_format])
       (simp add: expression_selectors v)
  moreover
  have "toAspectQuery ?P (expression True (Some ''>='') [?l, ?r]) = Inl OnlyEqForCollection"
    by (rule ge [THEN conjunct1, rule_format, of "''>=''"])
       (simp add: expression_selectors)
  ultimately show ?thesis by (simp add: expression_selectors)
qed

text \<open>
  C9. Two operands, one a reference and one a literal, the reference resolved to a
  reference that is not a collection: whenever compilation succeeds the result is an
  \<open>AspectQueryWithValue\<close> whose \<open>placeReferenceFirst\<close> flag says whether the first
  operand is the reference, and it does succeed when the literal converts to a query
  value and the operator is one of the comparison operators.
\<close>

theorem reference_first_flag_is_operand_order:
  assumes "operands e = [a, b]" and "isRef a \<noteq> isRef b"
    and "extractAspectIdAndPath prefixes (if isRef a then a else b) = Inr (aspectId, path, False)"
  shows "(\<forall>q. toAspectQuery prefixes e = Inr q
            \<longrightarrow> (\<exists>v sqlOp. q = AspectQueryWithValue aspectId path v sqlOp
                                 (ConciseExpression.negated e) (isRef a)))
       \<and> (\<forall>v op sqlOp. toAspectQueryValue (if isRef a then b else a) = Inr v
              \<and> operator e = Some op \<and> toSqlOperator op = Inr sqlOp
            \<longrightarrow> toAspectQuery prefixes e =
                  Inr (AspectQueryWithValue aspectId path v sqlOp
                         (ConciseExpression.negated e) (isRef a)))"
proof -
  have eq: "toAspectQuery prefixes e =
              withRefAndValue e (if isRef a then b else a) aspectId path False"
    by (simp add: toAspectQuery_reference_and_value [OF assms(1,2)] assms(3))
  show ?thesis
    unfolding eq
    by (auto simp: withRefAndValue_def operatorGet_def assms(1)
             split: option.splits sum.splits)
qed

theorem reference_first_flag_is_operand_order_witness:
  "toAspectQuery [''input.object.record'']
     (expression False (Some ''='')
        [reference ''input.object.record.ds.owner'', literal (JsString ''abc'')])
     = Inr (AspectQueryWithValue ''ds'' [''owner''] (AspectQueryStringValue ''abc'')
              (createUnsafely ''='') False True)
   \<and> toAspectQuery [''input.object.record'']
     (expression False (Some ''<'')
        [literal (JsNumber 3), reference ''input.object.record.ds.size''])
     = Inr (AspectQueryWithValue ''ds'' [''size''] (AspectQueryBigDecimalValue 3)
              (createUnsafely ''<'') False False)"
proof -
  let ?P = "[''input.object.record'']"
  let ?r1 = "reference ''input.object.record.ds.owner''"
  let ?l1 = "literal (JsString ''abc'')"
  let ?r2 = "reference ''input.object.record.ds.size''"
  let ?l2 = "literal (JsNumber 3)"
  have d: "isRef ?r1 \<noteq> isRef ?l1" "isRef ?l2 \<noteq> isRef ?r2"
    by (simp_all add: operand_selectors)
  have "extractAspectIdAndPath ?P ?r1 = Inr (''ds'', [''owner''], False)"
    by (simp add: extractAspectIdAndPath_def refStringWithoutPrefixes_def refString_def
        reference_def sortedPrefixes_def stripPrefix_def startsWith_def endsWith_def
        splitOnDot_def slice_def Let_def)
  then have x1: "extractAspectIdAndPath ?P (if isRef ?r1 then ?r1 else ?l1)
                   = Inr (''ds'', [''owner''], False)"
    by (simp add: operand_selectors)
  have "extractAspectIdAndPath ?P ?r2 = Inr (''ds'', [''size''], False)"
    by (simp add: extractAspectIdAndPath_def refStringWithoutPrefixes_def refString_def
        reference_def sortedPrefixes_def stripPrefix_def startsWith_def endsWith_def
        splitOnDot_def slice_def Let_def)
  then have x2: "extractAspectIdAndPath ?P (if isRef ?l2 then ?l2 else ?r2)
                   = Inr (''ds'', [''size''], False)"
    by (simp add: operand_selectors)
  have v: "toAspectQueryValue (if isRef ?r1 then ?l1 else ?r1)
             = Inr (AspectQueryStringValue ''abc'')"
          "toAspectQueryValue (if isRef ?l2 then ?r2 else ?l2)
             = Inr (AspectQueryBigDecimalValue 3)"
    by (simp_all add: literal_def reference_def toAspectQueryValue_def)
  have o: "toSqlOperator ''='' = Inr (createUnsafely ''='')"
          "toSqlOperator ''<'' = Inr (createUnsafely ''<'')"
    by (simp_all add: toSqlOperator_def)
  note first = reference_first_flag_is_operand_order
                 [OF expression_selectors(1) d(1) x1, of False "Some ''=''"]
  note second = reference_first_flag_is_operand_order
                 [OF expression_selectors(1) d(2) x2, of False "Some ''<''"]
  have "toAspectQuery ?P (expression False (Some ''='') [?r1, ?l1])
        = Inr (AspectQueryWithValue ''ds'' [''owner''] (AspectQueryStringValue ''abc'')
                 (createUnsafely ''='')
                 (ConciseExpression.negated (expression False (Some ''='') [?r1, ?l1]))
                 (isRef ?r1))"
    by (rule first [THEN conjunct2, rule_format, of _ "''=''"])
       (simp add: expression_selectors v o)
  moreover
  have "toAspectQuery ?P (expression False (Some ''<'') [?l2, ?r2])
        = Inr (AspectQueryWithValue ''ds'' [''size''] (AspectQueryBigDecimalValue 3)
                 (createUnsafely ''<'')
                 (ConciseExpression.negated (expression False (Some ''<'') [?l2, ?r2]))
                 (isRef ?l2))"
    by (rule second [THEN conjunct2, rule_format, of _ "''<''"])
       (simp add: expression_selectors v o)
  ultimately show ?thesis by (simp add: expression_selectors operand_selectors)
qed

section \<open>Truthiness and the rule compiler\<close>

lemma isTrueEquivalent_isTruthy: "isTrueEquivalent v = isTruthy v"
  by (cases v) (auto simp: isTruthy_def)

lemma mapE_Inr_iff: "(mapE f xs = Inr ys) = list_all2 (\<lambda>x y. f x = Inr y) xs ys"
proof (induction xs arbitrary: ys)
  case Nil
  show ?case by auto
next
  case (Cons x xs)
  show ?case
  proof (cases "f x")
    case (Inl e)
    then show ?thesis by (auto simp: list_all2_Cons1)
  next
    case (Inr y)
    then show ?thesis
      using Cons.IH by (cases "mapE f xs") (auto simp: list_all2_Cons1)
  qed
qed

text \<open>
  C2. A rule compiles to a group exactly when each of its expressions compiles; the
  group then holds the compiled expressions in the rule's order, joins them with AND
  and is negated iff the rule's value is not truthy, where truthiness is the table of
  the specification: false, null, the empty string, zero and the empty array are
  false and every other JSON value, every object among them, is true.
\<close>

theorem rule_compiles_to_conjunction_group:
  "(toAspectQueryGroup prefixes r = Inr g) =
     (list_all2 (\<lambda>e q. toAspectQuery prefixes e = Inr q) (expressions r) (queries g)
      \<and> joinWithAnd g = True
      \<and> AspectQueryGroup.negated g = (\<not> isTruthy (ConciseRule.value r)))
   \<and> isTrueEquivalent v = isTruthy v
   \<and> isTruthy (JsObject members)"
proof -
  have "(toAspectQueryGroup prefixes r = Inr g) =
     (list_all2 (\<lambda>e q. toAspectQuery prefixes e = Inr q) (expressions r) (queries g)
      \<and> joinWithAnd g = True
      \<and> AspectQueryGroup.negated g = (\<not> isTruthy (ConciseRule.value r)))"
  proof (cases "mapE (toAspectQuery prefixes) (expressions r)")
    case (Inl e)
    then have "\<not> list_all2 (\<lambda>e q. toAspectQuery prefixes e = Inr q) (expressions r) (queries g)"
      by (simp add: mapE_Inr_iff [symmetric])
    with Inl show ?thesis by (simp add: toAspectQueryGroup_def)
  next
    case (Inr qs)
    then have "list_all2 (\<lambda>e q. toAspectQuery prefixes e = Inr q) (expressions r) (queries g)
                 = (queries g = qs)"
      by (auto simp: mapE_Inr_iff [symmetric])
    with Inr show ?thesis
      by (cases g) (auto simp: toAspectQueryGroup_def isTrueEquivalent_isTruthy)
  qed
  then show ?thesis
    by (simp add: isTrueEquivalent_isTruthy) (simp add: isTruthy_def)
qed

theorem rule_compiles_to_conjunction_group_witness:
  "toAspectQueryGroup [''input.object.record'']
     \<lparr>default = True, value = JsFalse, fullName = ''data.object.record.allow'', name = ''allow'',
      expressions = [expression False None [reference ''input.object.record.access.ownerId'']]\<rparr>
   = Inr \<lparr>queries = [AspectQueryExists ''access'' [''ownerId''] False],
          joinWithAnd = True, negated = True\<rparr>"
proof -
  have "extractAspectIdAndPath [''input.object.record'']
          (reference ''input.object.record.access.ownerId'')
        = Inr (''access'', [''ownerId''], False)"
    by (simp add: extractAspectIdAndPath_def refStringWithoutPrefixes_def refString_def
        reference_def sortedPrefixes_def stripPrefix_def startsWith_def endsWith_def
        splitOnDot_def slice_def Let_def)
  then have e: "toAspectQuery [''input.object.record'']
                  (expression False None [reference ''input.object.record.access.ownerId''])
                = Inr (AspectQueryExists ''access'' [''ownerId''] False)"
    by (simp add: toAspectQuery_one_operand [OF expression_selectors(1)] expression_selectors)
  show ?thesis
    by (rule rule_compiles_to_conjunction_group [THEN conjunct1, THEN iffD2])
       (simp add: e isTruthy_def)
qed

section \<open>The decision compiler\<close>

text \<open>
  C3. A decision without residual rules always compiles, to exactly one group holding
  exactly one predicate: \<open>AspectQueryTrue\<close> when the result (false when absent) is
  truthy, \<open>AspectQueryFalse\<close> otherwise.
\<close>

theorem unconditional_decision_compiles:
  assumes "\<not> hasResidualRules d"
  shows "\<exists>g. toAspectQueryGroups ext prefixes d = Inr [g]
           \<and> queries g =
               [if isTruthy (case result d of None \<Rightarrow> JsFalse | Some v \<Rightarrow> v)
                then AspectQueryTrue else AspectQueryFalse]"
proof -
  have "getOrElse (result d) JsFalse = (case result d of None \<Rightarrow> JsFalse | Some v \<Rightarrow> v)"
    by (cases "result d") simp_all
  with assms show ?thesis
    by (simp add: toAspectQueryGroups_def groupOf_def isTrueEquivalent_isTruthy)
qed

theorem unconditional_decision_compiles_witness:
  "toAspectQueryGroups exampleExternals [''object.record''] (decision False (Some JsTrue) None)
     = Inr [\<lparr>queries = [AspectQueryTrue], joinWithAnd = True, negated = False\<rparr>]
   \<and> toAspectQueryGroups exampleExternals [''object.record''] (decision False None None)
     = Inr [\<lparr>queries = [AspectQueryFalse], joinWithAnd = True, negated = False\<rparr>]"
  using unconditional_decision_compiles
          [of "decision False (Some JsTrue) None" exampleExternals "[''object.record'']"]
        unconditional_decision_compiles
          [of "decision False None None" exampleExternals "[''object.record'']"]
  by (simp add: decision_def toAspectQueryGroups_def groupOf_def exampleExternals_def)

lemma toSql_no_groups:
  "toAspectQueryGroups ext prefixes d = Inr [] \<Longrightarrow>
     toSql ext prefixes recordIdSqlRef tenantIdSqlRef d = Inr None"
  by (simp add: toSql_def toOrConditionOpt_def)

text \<open>
  C1, as the code has it. A decision with residual rules whose rule list is empty
  compiles to the empty list of groups, and \<open>toSql\<close> then returns no condition at all:
  \<open>toOrConditionOpt\<close> of no conditions is \<open>None\<close>, not a fragment \<open>FALSE\<close>.
\<close>

theorem empty_residual_rules_no_condition:
  assumes "hasResidualRules d" and "residualRules d = Some []"
  shows "toAspectQueryGroups ext prefixes d = Inr []
         \<and> toSql ext prefixes recordIdSqlRef tenantIdSqlRef d = Inr None"
proof -
  from assms have "toAspectQueryGroups ext prefixes d = Inr []"
    by (simp add: toAspectQueryGroups_def)
  then show ?thesis by (simp add: toSql_no_groups)
qed

theorem empty_residual_rules_no_condition_witness:
  "toAspectQueryGroups exampleExternals [''object.record''] (decision True None (Some [])) = Inr []
   \<and> toSql exampleExternals [''object.record''] ''records.recordid'' ''records.tenantid''
        (decision True None (Some [])) = Inr None"
  using empty_residual_rules_no_condition
          [of "decision True None (Some [])" exampleExternals "[''object.record'']"
              "''records.recordid''" "''records.tenantid''"]
  by (simp add: decision_def)

text \<open>
  The claim C1 as stated fails: for the empty rule list the emitted condition is not
  the literal \<open>FALSE\<close>, with or without the round brackets \<open>toSql\<close> puts around a
  condition.
\<close>

theorem empty_residual_rules_not_FALSE:
  "toSql exampleExternals [''object.record''] ''records.recordid'' ''records.tenantid''
     (decision True (Some JsFalse) (Some [])) \<noteq> Inr (Some (createUnsafely ''FALSE''))
   \<and> toSql exampleExternals [''object.record''] ''records.recordid'' ''records.tenantid''
     (decision True (Some JsFalse) (Some [])) \<noteq> Inr (Some (roundBracket (createUnsafely ''FALSE'')))
   \<and> toSql exampleExternals [''object.record''] ''records.recordid'' ''records.tenantid''
     (decision True (Some JsFalse) (Some [])) = Inr None"
  by (simp add: toSql_def toOrConditionOpt_def toAspectQueryGroups_def decision_def)

text \<open>
  C10. A decision that says it has residual rules and carries none (\<open>residualRules\<close>
  absent) does not fail: it compiles to the empty list of groups and \<open>toSql\<close> returns
  no condition.
\<close>

theorem absent_residual_rules_no_condition:
  assumes "hasResidualRules d" and "residualRules d = None"
  shows "toAspectQueryGroups ext prefixes d = Inr []
         \<and> toSql ext prefixes recordIdSqlRef tenantIdSqlRef d = Inr None"
proof -
  from assms have "toAspectQueryGroups ext prefixes d = Inr []"
    by (simp add: toAspectQueryGroups_def)
  then show ?thesis by (simp add: toSql_no_groups)
qed

theorem absent_residual_rules_no_condition_witness:
  "toAspectQueryGroups exampleExternals [''object.record''] (decision True None None) = Inr []
   \<and> toSql exampleExternals [''object.record''] ''records.recordid'' ''records.tenantid''
        (decision True None None) = Inr None"
  using absent_residual_rules_no_condition
          [of "decision True None None" exampleExternals "[''object.record'']"
              "''records.recordid''" "''records.tenantid''"]
  by (simp add: decision_def)

end
